theory Spec2Isabelle
  imports Main
begin

section \<open>Values of the running program\<close>

text \<open>
  The file \<^verbatim>\<open>src/context/MultiStepFormContext.tsx\<close> runs as JavaScript: the type
  annotations are erased, so the reducer receives whatever value is dispatched and reads
  from it the properties its code names.

  A \<^verbatim>\<open>number\<close> is a double. The two index fields of the state hold integers; \<open>Num n\<close>
  is the double whose value is the integer \<open>n\<close>. The reducer can also store
  \<^verbatim>\<open>undefined\<close> in the step index (the \<^verbatim>\<open>GOTO\<close> case copies \<^verbatim>\<open>action.index\<close> without
  looking at it), and arithmetic on \<^verbatim>\<open>undefined\<close> gives \<^verbatim>\<open>NaN\<close>.
\<close>

datatype jsval = Num int | NaN | Undefined

text \<open>
  The sum or difference of two doubles is the double nearest to the exact result, a tie
  going to the one with the even significand. A double has 53 significant bits:
  \<open>ulp m\<close> is the distance between neighbouring doubles at magnitude \<open>m\<close>, 1 below
  \<open>2^53\<close> and doubling with every further bit. \<open>dbl_round x\<close> is the double nearest to
  the integer \<open>x\<close>. It is \<open>x\<close> itself up to magnitude \<open>2^53\<close>; beyond, odd integers are
  not doubles (\<open>- 2^53 - 1\<close> becomes \<open>- 2^53\<close>). Adding or subtracting one never reaches
  the largest double, so there is no overflow to model.
\<close>

function ulp :: "nat \<Rightarrow> nat" where
  "ulp m = (if m < 2 ^ 53 then 1 else 2 * ulp (m div 2))"
  by pat_completeness auto
termination
  by (relation "measure (\<lambda>m. m)") auto

definition dbl_round :: "int \<Rightarrow> int" where
  "dbl_round x =
     (let m = nat \<bar>x\<bar>;
          q = ulp m;
          r = m mod q;
          lo = m - r;
          nearest = (if 2 * r < q then lo
                     else if q < 2 * r then lo + q
                     else if even (lo div q) then lo else lo + q)
      in if x < 0 then - int nearest else int nearest)"

text \<open>\<^verbatim>\<open>x + 1\<close> and \<^verbatim>\<open>x - 1\<close> on such a value.\<close>

fun js_plus1 :: "jsval \<Rightarrow> jsval" where
  "js_plus1 (Num n) = Num (dbl_round (n + 1))"
| "js_plus1 NaN = NaN"
| "js_plus1 Undefined = NaN"

fun js_minus1 :: "jsval \<Rightarrow> jsval" where
  "js_minus1 (Num n) = Num (dbl_round (n - 1))"
| "js_minus1 NaN = NaN"
| "js_minus1 Undefined = NaN"

text \<open>
  An array has fewer than \<open>2^32\<close> elements (its \<^verbatim>\<open>length\<close> is an unsigned 32-bit
  integer). \<open>arr\<close> is the array literal, \<open>alength\<close> reads \<^verbatim>\<open>length\<close>, \<open>aget\<close> the
  element at a position of the array.
\<close>

typedef 'a js_array = "{xs :: 'a list. length xs < 2 ^ 32}"
  by (rule exI[of _ "[]"]) simp

definition arr :: "'a list \<Rightarrow> 'a js_array" where
  "arr xs = Abs_js_array xs"

definition alength :: "'a js_array \<Rightarrow> nat" where
  "alength a = length (Rep_js_array a)"

definition aget :: "'a js_array \<Rightarrow> nat \<Rightarrow> 'a" where
  "aget a i = Rep_js_array a ! i"

text \<open>
  \<^verbatim>\<open>steps[i]\<close>: the element when \<^verbatim>\<open>i\<close> is a position of the array, \<^verbatim>\<open>undefined\<close>
  (here \<open>None\<close>) for every other key: a negative or too large number, \<^verbatim>\<open>NaN\<close>,
  \<^verbatim>\<open>undefined\<close>.
\<close>

fun js_index :: "'a js_array \<Rightarrow> jsval \<Rightarrow> 'a option" where
  "js_index xs (Num i) = (if 0 \<le> i \<and> i < int (alength xs) then Some (aget xs (nat i)) else None)"
| "js_index xs NaN = None"
| "js_index xs Undefined = None"

text \<open>
  What a \<^verbatim>\<open>throw\<close> carries: \<^verbatim>\<open>new Error(message)\<close>; the \<^verbatim>\<open>TypeError\<close> of the engine
  when a property of \<^verbatim>\<open>undefined\<close> is read; its \<^verbatim>\<open>ReferenceError\<close> when an identifier
  that no scope declares is evaluated.
\<close>

datatype error = Error string | TypeError | ReferenceError string

section \<open>Form data\<close>

text \<open>
  \<^verbatim>\<open>CreateAccountFormData\<close> has ten string fields; an object of that interface is a
  value for each field name, a \<^verbatim>\<open>Partial\<close> of it a value for some of them.
\<close>

datatype field =
  FirstName | LastName | Age | Street | City | State | Zip | Email | Password | Code

type_synonym CreateAccountFormData = "field \<Rightarrow> string"

type_synonym PartialFormData = "field \<rightharpoonup> string"

text \<open>\<^verbatim>\<open>initialFormData\<close>: every field the empty string.\<close>

definition initialFormData :: CreateAccountFormData where
  "initialFormData = (\<lambda>_. '''')"

text \<open>
  \<^verbatim>\<open>{ ...formData, ...fields }\<close>: the properties of \<^verbatim>\<open>fields\<close> win, the others are
  copied; spreading \<^verbatim>\<open>undefined\<close> (here \<open>None\<close>) adds nothing.
\<close>

definition spread :: "CreateAccountFormData \<Rightarrow> PartialFormData option \<Rightarrow> CreateAccountFormData" where
  "spread fd flds =
     (case flds of
        None \<Rightarrow> fd
      | Some p \<Rightarrow> (\<lambda>k. case p k of Some v \<Rightarrow> v | None \<Rightarrow> fd k))"

section \<open>State and actions\<close>

text \<open>
  The part of \<^verbatim>\<open>MultiStepForm\<close> the reducer reads or writes. Its other properties are
  carried over unchanged by \<^verbatim>\<open>...state\<close> in every case. The elements of \<^verbatim>\<open>steps\<close> are
  opaque (\<open>'e\<close>).
\<close>

record 'e MultiStepForm =
  activeStepIndex :: jsval
  activeSubStepIndex :: jsval
  steps :: "'e js_array js_array"
  formData :: CreateAccountFormData

text \<open>
  The reducer's second argument as it arrives: a primitive string (\<open>Str\<close>), which has
  none of the properties the reducer reads, or an object (\<open>Obj\<close>) with its properties
  \<^verbatim>\<open>type\<close>, \<^verbatim>\<open>index\<close>, \<^verbatim>\<open>fields\<close> and \<^verbatim>\<open>payload\<close>, in this order, each possibly
  absent. The reducer reads \<^verbatim>\<open>action.type\<close>, \<^verbatim>\<open>action.index\<close> and \<^verbatim>\<open>action.fields\<close>.
  It never reads \<^verbatim>\<open>action.payload\<close>, which is where the declared type
  \<^verbatim>\<open>ActionMap<FormActionPayload>\<close> puts the index and the fields.
\<close>

datatype payload = IndexPayload int | FieldsPayload PartialFormData

datatype action =
  Str string
| Obj "string option" jsval "PartialFormData option" "payload option"

fun action_type :: "action \<Rightarrow> string option" where
  "action_type (Str s) = None"
| "action_type (Obj t i f p) = t"

fun action_index :: "action \<Rightarrow> jsval" where
  "action_index (Str s) = Undefined"
| "action_index (Obj t i f p) = i"

fun action_fields :: "action \<Rightarrow> PartialFormData option" where
  "action_fields (Str s) = None"
| "action_fields (Obj t i f p) = f"

text \<open>The enum \<^verbatim>\<open>Types\<close>.\<close>

definition Types_next :: string where "Types_next = ''NEXT''"
definition Types_prev :: string where "Types_prev = ''PREV''"
definition Types_goto :: string where "Types_goto = ''GOTO''"
definition Types_updateFormData :: string where "Types_updateFormData = ''UPDATE_FORM_DATA''"

text \<open>
  The four actions of the declared type \<^verbatim>\<open>MultiStepFormActions\<close>:
  \<^verbatim>\<open>{type: 'NEXT'}\<close>, \<^verbatim>\<open>{type: 'PREV'}\<close>, \<^verbatim>\<open>{type: 'GOTO', payload: {index}}\<close> and
  \<^verbatim>\<open>{type: 'UPDATE_FORM_DATA', payload: {fields}}\<close>.
\<close>

definition NEXT :: action where
  "NEXT = Obj (Some ''NEXT'') Undefined None None"

definition PREV :: action where
  "PREV = Obj (Some ''PREV'') Undefined None None"

definition GOTO :: "int \<Rightarrow> action" where
  "GOTO index = Obj (Some ''GOTO'') Undefined None (Some (IndexPayload index))"

definition UPDATE_FORM_DATA :: "PartialFormData \<Rightarrow> action" where
  "UPDATE_FORM_DATA flds = Obj (Some ''UPDATE_FORM_DATA'') Undefined None (Some (FieldsPayload flds))"

section \<open>The reducer\<close>

text \<open>The text a template literal prints for \<^verbatim>\<open>action.type\<close>.\<close>

fun show_type :: "string option \<Rightarrow> string" where
  "show_type None = ''undefined''"
| "show_type (Some t) = t"

text \<open>
  \<^verbatim>\<open>multiStepFormReducer\<close>, case by case in the order of the \<^verbatim>\<open>switch\<close>. In the
  \<^verbatim>\<open>NEXT\<close> case \<^verbatim>\<open>steps[activeStepIndex].length\<close> is read first: when
  \<^verbatim>\<open>steps[activeStepIndex]\<close> is \<^verbatim>\<open>undefined\<close> that read throws a \<^verbatim>\<open>TypeError\<close>.
\<close>

definition multiStepFormReducer :: "'e MultiStepForm \<Rightarrow> action \<Rightarrow> error + 'e MultiStepForm" where
  "multiStepFormReducer state action =
     (if action_type action = Some ''NEXT'' then
        (let nextSubStepIndex = js_plus1 (activeSubStepIndex state) in
         case js_index (steps state) (activeStepIndex state) of
           None \<Rightarrow> Inl TypeError
         | Some subSteps \<Rightarrow>
             if alength subSteps > 1 then
               if nextSubStepIndex = Num (int (alength subSteps)) then
                 Inr (state\<lparr>activeStepIndex := js_plus1 (activeStepIndex state),
                            activeSubStepIndex := Num 0\<rparr>)
               else Inr (state\<lparr>activeSubStepIndex := nextSubStepIndex\<rparr>)
             else
               Inr (state\<lparr>activeStepIndex := js_plus1 (activeStepIndex state),
                          activeSubStepIndex := Num 0\<rparr>))
      else if action_type action = Some ''PREV'' then
        Inr (state\<lparr>activeStepIndex := js_minus1 (activeStepIndex state),
                   activeSubStepIndex := Num 0\<rparr>)
      else if action_type action = Some ''GOTO'' then
        Inr (state\<lparr>activeStepIndex := action_index action,
                   activeSubStepIndex := Num 0\<rparr>)
      else if action_type action = Some ''UPDATE_FORM_DATA'' then
        Inr (state\<lparr>formData := spread (formData state) (action_fields action)\<rparr>)
      else
        Inl (Error (''Invalid action type: '' @ show_type (action_type action))))"

text \<open>
  Several transitions one after the other, each on the state the one before returned; the
  first \<^verbatim>\<open>throw\<close> ends the run. This is how a sequence of calls is stated below.
\<close>

fun reduce_all :: "'e MultiStepForm \<Rightarrow> action list \<Rightarrow> error + 'e MultiStepForm" where
  "reduce_all state [] = Inr state"
| "reduce_all state (a # as) =
     (case multiStepFormReducer state a of
        Inl e \<Rightarrow> Inl e
      | Inr state' \<Rightarrow> reduce_all state' as)"

section \<open>The hook\<close>

text \<open>
  \<^verbatim>\<open>dispatch\<close> is the function \<^verbatim>\<open>useReducer\<close> of React returns: \<^verbatim>\<open>dispatch(a)\<close> makes
  the next state \<^verbatim>\<open>reducer(state, a)\<close>, and what the reducer throws reaches the caller.
  It takes one argument; a call with two passes the first.
\<close>

definition dispatch :: "'e MultiStepForm \<Rightarrow> action \<Rightarrow> error + 'e MultiStepForm" where
  "dispatch state a = multiStepFormReducer state a"

text \<open>
  The four callbacks of \<^verbatim>\<open>useMultiStepForm\<close> (\<^verbatim>\<open>next\<close>, \<^verbatim>\<open>back\<close>, \<^verbatim>\<open>goTo\<close>,
  \<^verbatim>\<open>updateFormData\<close>). Each passes a member of the enum \<^verbatim>\<open>Types\<close>, a string, as the
  action; \<^verbatim>\<open>goTo\<close> and \<^verbatim>\<open>updateFormData\<close> pass their object as a second argument,
  which \<^verbatim>\<open>dispatch\<close> does not take.
\<close>

definition next_cb :: "'e MultiStepForm \<Rightarrow> error + 'e MultiStepForm" where
  "next_cb state = dispatch state (Str Types_next)"

definition back_cb :: "'e MultiStepForm \<Rightarrow> error + 'e MultiStepForm" where
  "back_cb state = dispatch state (Str Types_prev)"

definition goTo_cb :: "int \<Rightarrow> 'e MultiStepForm \<Rightarrow> error + 'e MultiStepForm" where
  "goTo_cb index state = dispatch state (Str Types_goto)"

definition updateFormData_cb :: "PartialFormData \<Rightarrow> 'e MultiStepForm \<Rightarrow> error + 'e MultiStepForm" where
  "updateFormData_cb flds state = dispatch state (Str Types_updateFormData)"

text \<open>
  The object \<^verbatim>\<open>useMultiStepForm\<close> returns. Its property expressions are evaluated in the
  order they are written. Three of them are identifiers the hook body does not declare:
  \<^verbatim>\<open>activeStepIndex\<close>, \<^verbatim>\<open>activeSubStepIndex\<close> and \<^verbatim>\<open>formData\<close> (the body declares
  \<^verbatim>\<open>childFormRef\<close>, \<^verbatim>\<open>initialFormData\<close>, \<^verbatim>\<open>initialSteps\<close>, \<^verbatim>\<open>state\<close>, \<^verbatim>\<open>dispatch\<close>,
  \<^verbatim>\<open>steps\<close>, \<^verbatim>\<open>next\<close>, \<^verbatim>\<open>back\<close>, \<^verbatim>\<open>goTo\<close>, \<^verbatim>\<open>updateFormData\<close>, and never takes
  \<^verbatim>\<open>state\<close> apart). Such an identifier is looked up in the scope around the body; one
  that no scope declares throws a \<^verbatim>\<open>ReferenceError\<close>.
\<close>

datatype val = VNum jsval | VForm CreateAccountFormData | VOther

definition resolve :: "(string \<rightharpoonup> val) \<Rightarrow> string \<Rightarrow> error + val" where
  "resolve scope x = (case scope x of None \<Rightarrow> Inl (ReferenceError x) | Some v \<Rightarrow> Inr v)"

text \<open>
  A value used as the key of an array element: a number is a position or no position at
  all, every other value is no position.
\<close>

fun key_of :: "val \<Rightarrow> jsval" where
  "key_of (VNum v) = v"
| "key_of (VForm fd) = Undefined"
| "key_of VOther = Undefined"

text \<open>
  The properties of the returned object that carry data; the four callbacks and
  \<^verbatim>\<open>childFormRef\<close> are left out. \<^verbatim>\<open>step\<close> is \<^verbatim>\<open>undefined\<close> (\<open>None\<close>) when the
  sub-step index is no position of the step.
\<close>

record 'e HookResult =
  out_activeStepIndex :: val
  out_activeSubStepIndex :: val
  out_step :: "'e option"
  out_steps :: "'e js_array js_array"
  out_isFirstStep :: bool
  out_isLastStep :: bool
  out_formData :: val

text \<open>
  The \<^verbatim>\<open>return\<close> statement in a scope for the three identifiers, with the hook's own
  \<^verbatim>\<open>steps\<close>: \<^verbatim>\<open>steps[activeStepIndex][activeSubStepIndex]\<close> throws a \<^verbatim>\<open>TypeError\<close> when
  \<^verbatim>\<open>steps[activeStepIndex]\<close> is \<^verbatim>\<open>undefined\<close>; \<^verbatim>\<open>isFirstStep\<close> is
  \<^verbatim>\<open>activeStepIndex === 0\<close> and \<^verbatim>\<open>isLastStep\<close> is
  \<^verbatim>\<open>activeStepIndex === steps.length - 1\<close>.
\<close>

definition return_object :: "(string \<rightharpoonup> val) \<Rightarrow> 'e js_array js_array \<Rightarrow> error + 'e HookResult" where
  "return_object scope stp =
     (case resolve scope ''activeStepIndex'' of
        Inl e \<Rightarrow> Inl e
      | Inr stepIndex \<Rightarrow>
     (case resolve scope ''activeSubStepIndex'' of
        Inl e \<Rightarrow> Inl e
      | Inr subStepIndex \<Rightarrow>
     (case js_index stp (key_of stepIndex) of
        None \<Rightarrow> Inl TypeError
      | Some subSteps \<Rightarrow>
     (case resolve scope ''formData'' of
        Inl e \<Rightarrow> Inl e
      | Inr fd \<Rightarrow>
          Inr \<lparr>out_activeStepIndex = stepIndex,
               out_activeSubStepIndex = subStepIndex,
               out_step = js_index subSteps (key_of subStepIndex),
               out_steps = stp,
               out_isFirstStep = (stepIndex = VNum (Num 0)),
               out_isLastStep = (stepIndex = VNum (Num (int (alength stp) - 1))),
               out_formData = fd\<rparr>))))"

text \<open>
  The scope around the hook body: the imports and the declarations at the top level of
  the module. None of them is one of the three identifiers, and the global object has no
  property of these names.
\<close>

definition module_scope :: "string \<rightharpoonup> val" where
  "module_scope = map_of
     [(''React'', VOther), (''createContext'', VOther), (''useCallback'', VOther),
      (''useContext'', VOther), (''useMemo'', VOther), (''useReducer'', VOther),
      (''Types'', VOther), (''multiStepFormReducer'', VOther),
      (''MultiStepFormContext'', VOther), (''useMultiStepForm'', VOther),
      (''MultiStepFormProvider'', VOther), (''useMultiStepFormContext'', VOther)]"

text \<open>
  \<^verbatim>\<open>useMultiStepForm\<close> at a render where the reducer holds \<open>state\<close> and the props carry
  \<open>initialSteps\<close>. The statements before the \<^verbatim>\<open>return\<close> do not throw; \<^verbatim>\<open>steps\<close> is
  \<open>initialSteps\<close>. Nothing in the \<^verbatim>\<open>return\<close> statement reads \<open>state\<close>.
\<close>

definition useMultiStepForm :: "'e MultiStepForm \<Rightarrow> 'e js_array js_array \<Rightarrow> error + 'e HookResult" where
  "useMultiStepForm state initialSteps = return_object module_scope initialSteps"

section \<open>The context\<close>

text \<open>
  \<^verbatim>\<open>useContext\<close> of React gives the value of the nearest provider above the caller, and
  the default the context was created with when there is none. \<^verbatim>\<open>MultiStepFormContext\<close>
  is created with the default \<^verbatim>\<open>null\<close> (\<open>None\<close>); a provider's value is of type
  \<^verbatim>\<open>MultiStepForm | null\<close>.
\<close>

definition useContext :: "'v \<Rightarrow> 'v option \<Rightarrow> 'v" where
  "useContext dflt provider = (case provider of None \<Rightarrow> dflt | Some v \<Rightarrow> v)"

definition useMultiStepFormContext :: "'c option option \<Rightarrow> error + 'c" where
  "useMultiStepFormContext provider =
     (case useContext None provider of
        None \<Rightarrow> Inl (Error ''useMultiStepFormContext must be used within a MultiStepFormProvider'')
      | Some context \<Rightarrow> Inr context)"

text \<open>The step list of the scenario in the specification, \<open>[[A], [B1, B2], [C]]\<close>.\<close>

definition demo_steps :: "nat js_array js_array" where
  "demo_steps = arr [arr [0], arr [1, 2], arr [3]]"

text \<open>A step list whose last step has two sub-steps, \<open>[[A], [B1, B2]]\<close>.\<close>

definition short_steps :: "nat js_array js_array" where
  "short_steps = arr [arr [0], arr [1, 2]]"

section \<open>Facts about the values\<close>

text \<open>
  Below \<open>2^53\<close> every integer is a double, so rounding changes nothing; \<open>- 2^53 - 1\<close> is
  the first integer it moves.
\<close>

lemma ulp_small: "m < 2 ^ 53 \<Longrightarrow> ulp m = 1"
  by (subst ulp.simps) (simp del: ulp.simps)

lemma ulp_2_53: "ulp (2 ^ 53) = 2"
  by (subst ulp.simps) (simp add: ulp_small del: ulp.simps)

lemma ulp_above_2_53: "ulp 9007199254740993 = 2"
  by (subst ulp.simps) (simp add: ulp_small del: ulp.simps)

lemma dbl_round_exact: "\<bar>x\<bar> \<le> 2 ^ 53 \<Longrightarrow> dbl_round x = x"
proof -
  assume "\<bar>x\<bar> \<le> 2 ^ 53"
  then have "nat \<bar>x\<bar> \<le> 2 ^ 53" by simp
  then have "nat \<bar>x\<bar> < 2 ^ 53 \<or> nat \<bar>x\<bar> = 2 ^ 53" by (simp add: le_less)
  then show ?thesis
  proof
    assume "nat \<bar>x\<bar> < 2 ^ 53"
    then show ?thesis
      by (auto simp add: dbl_round_def ulp_small Let_def simp del: ulp.simps)
  next
    assume e: "nat \<bar>x\<bar> = 2 ^ 53"
    then have u: "ulp (nat \<bar>x\<bar>) = 2" by (simp only: ulp_2_53)
    have r: "nat \<bar>x\<bar> mod 2 = 0" "nat \<bar>x\<bar> div 2 = 2 ^ 52" by (simp_all add: e)
    show ?thesis
      unfolding dbl_round_def Let_def u r using e by (simp del: ulp.simps)
  qed
qed

lemma dbl_round_below: "dbl_round (- (2 ^ 53) - 1) = - (2 ^ 53)"
  by (simp add: dbl_round_def ulp_above_2_53 Let_def del: ulp.simps)

text \<open>
  Positions of an array are below \<open>2^32\<close>, so adding or subtracting one is exact on them.
\<close>

lemma alength_bound: "int (alength a) < 2 ^ 32"
  using Rep_js_array[of a] by (simp add: alength_def)

lemma alength_arr: "length xs < 2 ^ 32 \<Longrightarrow> alength (arr xs) = length xs"
  by (simp add: alength_def arr_def Abs_js_array_inverse)

lemma aget_arr: "length xs < 2 ^ 32 \<Longrightarrow> aget (arr xs) i = xs ! i"
  by (simp add: aget_def arr_def Abs_js_array_inverse)

lemma plus1_position: "n \<le> alength a \<Longrightarrow> js_plus1 (Num (int n)) = Num (int n + 1)"
  using alength_bound[of a] by (simp add: dbl_round_exact)

lemma minus1_position: "n \<le> alength a + 1 \<Longrightarrow> js_minus1 (Num (int n)) = Num (int n - 1)"
  using alength_bound[of a] by (simp add: dbl_round_exact)

lemma demo_lengths:
  "alength demo_steps = 3" "alength (aget demo_steps 0) = 1"
  "alength (aget demo_steps 1) = 2" "alength (aget demo_steps (Suc 0)) = 2"
  "alength (aget demo_steps 2) = 1"
  by (simp_all add: demo_steps_def alength_arr aget_arr)

lemma short_lengths:
  "alength short_steps = 2" "alength (aget short_steps 0) = 1" "alength (aget short_steps 1) = 2"
  "alength (aget short_steps (Suc 0)) = 2"
  by (simp_all add: short_steps_def alength_arr aget_arr)

section \<open>Single transitions\<close>

text \<open>
  \<^verbatim>\<open>NEXT\<close> at a step of the step list: inside a step with several sub-steps before its
  last sub-step, leaving the step, and both at once; \<^verbatim>\<open>PREV\<close> from any state.
\<close>

lemma next_within:
  assumes "s < alength stp" "1 < alength (aget stp s)" "int k + 1 < int (alength (aget stp s))"
  shows "multiStepFormReducer
     \<lparr>activeStepIndex = Num (int s), activeSubStepIndex = Num (int k), steps = stp, formData = fd\<rparr> NEXT
   = Inr \<lparr>activeStepIndex = Num (int s), activeSubStepIndex = Num (int k + 1), steps = stp, formData = fd\<rparr>"
proof -
  have p: "js_plus1 (Num (int k)) = Num (int k + 1)"
    using assms(3) by (intro plus1_position[of k "aget stp s"]) simp
  show ?thesis
    using assms by (simp add: multiStepFormReducer_def NEXT_def Let_def p del: js_plus1.simps)
qed

lemma next_cross:
  assumes "s < alength stp"
    and "alength (aget stp s) \<le> 1 \<or> js_plus1 j = Num (int (alength (aget stp s)))"
  shows "multiStepFormReducer
     \<lparr>activeStepIndex = Num (int s), activeSubStepIndex = j, steps = stp, formData = fd\<rparr> NEXT
   = Inr \<lparr>activeStepIndex = Num (int s + 1), activeSubStepIndex = Num 0, steps = stp, formData = fd\<rparr>"
proof -
  have p: "js_plus1 (Num (int s)) = Num (int s + 1)"
    using assms(1) by (intro plus1_position[of s stp]) simp
  show ?thesis
    using assms by (auto simp add: multiStepFormReducer_def NEXT_def Let_def p simp del: js_plus1.simps)
qed

lemma next_stay:
  assumes "s < alength stp"
    and "1 < alength (aget stp s)" "js_plus1 j \<noteq> Num (int (alength (aget stp s)))"
  shows "multiStepFormReducer
     \<lparr>activeStepIndex = Num (int s), activeSubStepIndex = j, steps = stp, formData = fd\<rparr> NEXT
   = Inr \<lparr>activeStepIndex = Num (int s), activeSubStepIndex = js_plus1 j, steps = stp, formData = fd\<rparr>"
  using assms by (auto simp add: multiStepFormReducer_def NEXT_def Let_def simp del: js_plus1.simps)

lemma next_at_step:
  assumes "s < alength stp"
  shows "multiStepFormReducer
        \<lparr>activeStepIndex = Num (int s), activeSubStepIndex = j, steps = stp, formData = fd\<rparr> NEXT
      = (if alength (aget stp s) \<le> 1 \<or> js_plus1 j = Num (int (alength (aget stp s)))
         then Inr \<lparr>activeStepIndex = Num (int s + 1), activeSubStepIndex = Num 0,
                    steps = stp, formData = fd\<rparr>
         else Inr \<lparr>activeStepIndex = Num (int s), activeSubStepIndex = js_plus1 j,
                    steps = stp, formData = fd\<rparr>)"
proof (cases "alength (aget stp s) \<le> 1 \<or> js_plus1 j = Num (int (alength (aget stp s)))")
  case True
  from next_cross[OF assms True, of fd] True show ?thesis
    by (simp del: js_plus1.simps)
next
  case False
  then have "1 < alength (aget stp s)" "js_plus1 j \<noteq> Num (int (alength (aget stp s)))"
    by auto
  from next_stay[OF assms this, of fd] False show ?thesis
    by (simp del: js_plus1.simps)
qed

lemma prev_any:
  "multiStepFormReducer
     \<lparr>activeStepIndex = i, activeSubStepIndex = j, steps = stp, formData = fd\<rparr> PREV
   = Inr \<lparr>activeStepIndex = js_minus1 i, activeSubStepIndex = Num 0, steps = stp, formData = fd\<rparr>"
  by (simp add: multiStepFormReducer_def PREV_def)

section \<open>Moving forward through a step\<close>

lemma run_within:
  assumes "s < alength stp" "j + k < alength (aget stp s)"
  shows "reduce_all
     \<lparr>activeStepIndex = Num (int s), activeSubStepIndex = Num (int j), steps = stp, formData = fd\<rparr>
     (replicate k NEXT)
   = Inr \<lparr>activeStepIndex = Num (int s), activeSubStepIndex = Num (int (j + k)), steps = stp, formData = fd\<rparr>"
  using assms
proof (induction k arbitrary: j)
  case 0
  then show ?case by simp
next
  case (Suc k)
  have "1 < alength (aget stp s)" "int j + 1 < int (alength (aget stp s))"
    using Suc.prems by auto
  from next_within[OF Suc.prems(1) this, of fd] Suc.IH[of "Suc j"] Suc.prems
  show ?case by (simp add: add.commute)
qed

lemma reduce_all_append:
  "reduce_all st (xs @ ys)
   = (case reduce_all st xs of Inl e \<Rightarrow> Inl e | Inr st' \<Rightarrow> reduce_all st' ys)"
  by (induction xs arbitrary: st) (auto split: sum.splits)

text \<open>
  C1. Let step \<open>s\<close> of the step list have \<open>N > 1\<close> sub-steps and start at position
  \<open>(s, 0)\<close>. After \<open>k\<close> calls of the \<^verbatim>\<open>NEXT\<close> transition, for every \<open>k < N\<close>, the
  position is \<open>(s, k)\<close>: each of the first \<open>N - 1\<close> calls keeps the step index and adds
  exactly one to the sub-step index. After the \<open>N\<close>th call the position is \<open>(s + 1, 0)\<close>.
  No call throws, and step list and form data stay as they were.
\<close>

theorem advance_through_step:
  assumes "s < alength stp" and "alength (aget stp s) = N" and "1 < N"
  shows "(\<forall>k<N. reduce_all
            \<lparr>activeStepIndex = Num (int s), activeSubStepIndex = Num 0, steps = stp, formData = fd\<rparr>
            (replicate k NEXT)
          = Inr \<lparr>activeStepIndex = Num (int s), activeSubStepIndex = Num (int k), steps = stp, formData = fd\<rparr>)
       \<and> reduce_all
            \<lparr>activeStepIndex = Num (int s), activeSubStepIndex = Num 0, steps = stp, formData = fd\<rparr>
            (replicate N NEXT)
          = Inr \<lparr>activeStepIndex = Num (int s + 1), activeSubStepIndex = Num 0, steps = stp, formData = fd\<rparr>"
proof (intro conjI allI impI)
  fix k assume "k < N"
  then show "reduce_all
            \<lparr>activeStepIndex = Num (int s), activeSubStepIndex = Num 0, steps = stp, formData = fd\<rparr>
            (replicate k NEXT)
          = Inr \<lparr>activeStepIndex = Num (int s), activeSubStepIndex = Num (int k), steps = stp, formData = fd\<rparr>"
    using run_within[of s stp 0 k fd] assms by simp
next
  obtain m where N: "N = Suc m"
    using assms(3) by (cases N) auto
  have before: "reduce_all
            \<lparr>activeStepIndex = Num (int s), activeSubStepIndex = Num 0, steps = stp, formData = fd\<rparr>
            (replicate m NEXT)
          = Inr \<lparr>activeStepIndex = Num (int s), activeSubStepIndex = Num (int m), steps = stp, formData = fd\<rparr>"
    using run_within[of s stp 0 m fd] assms N by simp
  have "js_plus1 (Num (int m)) = Num (int (alength (aget stp s)))"
    using plus1_position[of m "aget stp s"] assms(2) N by simp
  then have final: "multiStepFormReducer
     \<lparr>activeStepIndex = Num (int s), activeSubStepIndex = Num (int m), steps = stp, formData = fd\<rparr> NEXT
   = Inr \<lparr>activeStepIndex = Num (int s + 1), activeSubStepIndex = Num 0, steps = stp, formData = fd\<rparr>"
    using next_cross[of s stp "Num (int m)" fd] assms(1) by blast
  have "replicate N NEXT = replicate m NEXT @ [NEXT]"
    unfolding N by (simp add: replicate_append_same)
  then show "reduce_all
            \<lparr>activeStepIndex = Num (int s), activeSubStepIndex = Num 0, steps = stp, formData = fd\<rparr>
            (replicate N NEXT)
          = Inr \<lparr>activeStepIndex = Num (int s + 1), activeSubStepIndex = Num 0, steps = stp, formData = fd\<rparr>"
    by (simp add: reduce_all_append before final)
qed

text \<open>
  C1 on the scenario's step list: step 1 has the two sub-steps \<open>B1, B2\<close>; from \<open>(1, 0)\<close>
  one call gives \<open>(1, 1)\<close> and the second \<open>(2, 0)\<close>.
\<close>

theorem advance_through_step_witness:
  "(1::nat) < alength demo_steps \<and> alength (aget demo_steps 1) = 2 \<and> (1::nat) < 2
   \<and> reduce_all
        \<lparr>activeStepIndex = Num 1, activeSubStepIndex = Num 0, steps = demo_steps, formData = initialFormData\<rparr>
        [NEXT]
      = Inr \<lparr>activeStepIndex = Num 1, activeSubStepIndex = Num 1, steps = demo_steps, formData = initialFormData\<rparr>
   \<and> reduce_all
        \<lparr>activeStepIndex = Num 1, activeSubStepIndex = Num 0, steps = demo_steps, formData = initialFormData\<rparr>
        [NEXT, NEXT]
      = Inr \<lparr>activeStepIndex = Num 2, activeSubStepIndex = Num 0, steps = demo_steps, formData = initialFormData\<rparr>"
proof -
  have h1: "(1::nat) < alength demo_steps" by (simp add: demo_lengths)
  have h2: "alength (aget demo_steps 1) = 2" by (rule demo_lengths)
  have h3: "(1::nat) < 2" by simp
  have r: "replicate 1 NEXT = [NEXT]" "replicate 2 NEXT = [NEXT, NEXT]"
    by (simp_all add: numeral_2_eq_2)
  note t = advance_through_step[OF h1 h2 h3, of initialFormData]
  from t have a: "reduce_all
        \<lparr>activeStepIndex = Num (int 1), activeSubStepIndex = Num 0, steps = demo_steps, formData = initialFormData\<rparr>
        (replicate 1 NEXT)
      = Inr \<lparr>activeStepIndex = Num (int 1), activeSubStepIndex = Num (int 1), steps = demo_steps, formData = initialFormData\<rparr>"
    by (elim conjE) (drule spec[of _ 1], simp)
  from t have b: "reduce_all
        \<lparr>activeStepIndex = Num (int 1), activeSubStepIndex = Num 0, steps = demo_steps, formData = initialFormData\<rparr>
        (replicate 2 NEXT)
      = Inr \<lparr>activeStepIndex = Num (int 1 + 1), activeSubStepIndex = Num 0, steps = demo_steps, formData = initialFormData\<rparr>"
    by blast
  from a b h1 h2 show ?thesis
    by (simp add: r del: reduce_all.simps)
qed

section \<open>Moving backward\<close>

text \<open>
  C2, as stated, at two concrete inputs. On \<open>[[A], [B1, B2], [C]]\<close> at position \<open>(1, 0)\<close>,
  \<^verbatim>\<open>NEXT\<close> gives \<open>(1, 1)\<close> and \<^verbatim>\<open>PREV\<close> after it gives \<open>(0, 0)\<close>: the two calls do not
  land on \<open>(stepIndex, 0) = (1, 0)\<close>. And at step index \<open>- 2^53\<close> \<^verbatim>\<open>PREV\<close> leaves the
  step index where it is: \<open>- 2^53 - 1\<close> is not a double and the subtraction rounds back.
\<close>

theorem retreat_counterexample:
  "reduce_all
     \<lparr>activeStepIndex = Num 1, activeSubStepIndex = Num 0, steps = demo_steps, formData = initialFormData\<rparr>
     [NEXT, PREV]
   = Inr \<lparr>activeStepIndex = Num 0, activeSubStepIndex = Num 0, steps = demo_steps, formData = initialFormData\<rparr>
   \<and> reduce_all
     \<lparr>activeStepIndex = Num 1, activeSubStepIndex = Num 0, steps = demo_steps, formData = initialFormData\<rparr>
     [NEXT, PREV]
   \<noteq> Inr \<lparr>activeStepIndex = Num 1, activeSubStepIndex = Num 0, steps = demo_steps, formData = initialFormData\<rparr>
   \<and> multiStepFormReducer
     \<lparr>activeStepIndex = Num (- (2 ^ 53)), activeSubStepIndex = Num 0, steps = demo_steps, formData = initialFormData\<rparr>
     PREV
   = Inr \<lparr>activeStepIndex = Num (- (2 ^ 53)), activeSubStepIndex = Num 0, steps = demo_steps, formData = initialFormData\<rparr>
   \<and> multiStepFormReducer
     \<lparr>activeStepIndex = Num (- (2 ^ 53)), activeSubStepIndex = Num 0, steps = demo_steps, formData = initialFormData\<rparr>
     PREV
   \<noteq> Inr \<lparr>activeStepIndex = Num (- (2 ^ 53) - 1), activeSubStepIndex = Num 0, steps = demo_steps, formData = initialFormData\<rparr>"
proof -
  have a: "multiStepFormReducer
     \<lparr>activeStepIndex = Num 1, activeSubStepIndex = Num 0, steps = demo_steps, formData = initialFormData\<rparr> NEXT
   = Inr \<lparr>activeStepIndex = Num 1, activeSubStepIndex = Num 1, steps = demo_steps, formData = initialFormData\<rparr>"
    using next_within[of 1 demo_steps 0 initialFormData] by (simp add: demo_lengths)
  have b: "multiStepFormReducer
     \<lparr>activeStepIndex = Num 1, activeSubStepIndex = Num 1, steps = demo_steps, formData = initialFormData\<rparr> PREV
   = Inr \<lparr>activeStepIndex = Num 0, activeSubStepIndex = Num 0, steps = demo_steps, formData = initialFormData\<rparr>"
    by (simp add: prev_any dbl_round_exact)
  have c: "multiStepFormReducer
     \<lparr>activeStepIndex = Num (- (2 ^ 53)), activeSubStepIndex = Num 0, steps = demo_steps, formData = initialFormData\<rparr>
     PREV
   = Inr \<lparr>activeStepIndex = Num (- (2 ^ 53)), activeSubStepIndex = Num 0, steps = demo_steps, formData = initialFormData\<rparr>"
    using dbl_round_below by (simp add: prev_any)
  show ?thesis
    unfolding c by (simp add: a b)
qed

text \<open>
  C2, amended. From every prior state whose step index is a safe integer
  (\<open>|stepIndex| < 2^53\<close>) the \<^verbatim>\<open>PREV\<close> transition gives the position
  \<open>(stepIndex - 1, 0)\<close>, whatever the prior sub-step index. \<^verbatim>\<open>NEXT\<close> followed by
  \<^verbatim>\<open>PREV\<close>, from a step \<open>s\<close> of the step list, lands on \<open>(s, 0)\<close> when \<^verbatim>\<open>NEXT\<close> moved to
  the next step (the step has at most one sub-step, or the sub-step index was at its last
  sub-step), and on \<open>(s - 1, 0)\<close> when \<^verbatim>\<open>NEXT\<close> only moved to the next sub-step.
\<close>

theorem retreat_position:
  "(\<bar>i\<bar> < 2 ^ 53 \<longrightarrow>
      multiStepFormReducer
        \<lparr>activeStepIndex = Num i, activeSubStepIndex = j, steps = stp, formData = fd\<rparr> PREV
      = Inr \<lparr>activeStepIndex = Num (i - 1), activeSubStepIndex = Num 0, steps = stp, formData = fd\<rparr>)
   \<and> (s < alength stp \<longrightarrow>
        reduce_all
          \<lparr>activeStepIndex = Num (int s), activeSubStepIndex = j, steps = stp, formData = fd\<rparr>
          [NEXT, PREV]
        = Inr \<lparr>activeStepIndex =
                  (if alength (aget stp s) \<le> 1 \<or> js_plus1 j = Num (int (alength (aget stp s)))
                   then Num (int s) else Num (int s - 1)),
               activeSubStepIndex = Num 0, steps = stp, formData = fd\<rparr>)"
proof (intro conjI impI)
  assume "\<bar>i\<bar> < 2 ^ 53"
  then have "dbl_round (i - 1) = i - 1" by (intro dbl_round_exact) simp
  then show "multiStepFormReducer
        \<lparr>activeStepIndex = Num i, activeSubStepIndex = j, steps = stp, formData = fd\<rparr> PREV
      = Inr \<lparr>activeStepIndex = Num (i - 1), activeSubStepIndex = Num 0, steps = stp, formData = fd\<rparr>"
    by (simp add: prev_any)
next
  assume s: "s < alength stp"
  have m0: "js_minus1 (Num (int s)) = Num (int s - 1)"
    using s by (intro minus1_position[of s stp]) simp
  have m1: "js_minus1 (Num (int s + 1)) = Num (int s)"
    using minus1_position[of "Suc s" stp] s by simp
  show "reduce_all
          \<lparr>activeStepIndex = Num (int s), activeSubStepIndex = j, steps = stp, formData = fd\<rparr>
          [NEXT, PREV]
        = Inr \<lparr>activeStepIndex =
                  (if alength (aget stp s) \<le> 1 \<or> js_plus1 j = Num (int (alength (aget stp s)))
                   then Num (int s) else Num (int s - 1)),
               activeSubStepIndex = Num 0, steps = stp, formData = fd\<rparr>"
  proof (cases "alength (aget stp s) \<le> 1 \<or> js_plus1 j = Num (int (alength (aget stp s)))")
    case True
    from next_cross[OF s True, of fd] True show ?thesis
      by (simp add: prev_any m1 del: js_minus1.simps js_plus1.simps)
  next
    case False
    then have "1 < alength (aget stp s)" "js_plus1 j \<noteq> Num (int (alength (aget stp s)))"
      by auto
    from next_stay[OF s this, of fd] False show ?thesis
      by (simp add: prev_any m0 del: js_minus1.simps js_plus1.simps)
  qed
qed

text \<open>
  C2, amended, on the scenario: \<^verbatim>\<open>PREV\<close> at \<open>(2, 0)\<close> gives \<open>(1, 0)\<close>; from \<open>(1, 1)\<close>,
  the last sub-step of step 1, \<^verbatim>\<open>NEXT\<close> then \<^verbatim>\<open>PREV\<close> lands on \<open>(1, 0)\<close>, not on
  \<open>(1, 1)\<close>.
\<close>

theorem retreat_position_witness:
  "\<bar>2::int\<bar> < 2 ^ 53
   \<and> multiStepFormReducer
        \<lparr>activeStepIndex = Num 2, activeSubStepIndex = Num 0, steps = demo_steps, formData = initialFormData\<rparr>
        PREV
      = Inr \<lparr>activeStepIndex = Num 1, activeSubStepIndex = Num 0, steps = demo_steps, formData = initialFormData\<rparr>
   \<and> (1::nat) < alength demo_steps
   \<and> reduce_all
        \<lparr>activeStepIndex = Num 1, activeSubStepIndex = Num 1, steps = demo_steps, formData = initialFormData\<rparr>
        [NEXT, PREV]
      = Inr \<lparr>activeStepIndex = Num 1, activeSubStepIndex = Num 0, steps = demo_steps, formData = initialFormData\<rparr>"
proof -
  have h1: "\<bar>2::int\<bar> < 2 ^ 53" by simp
  have h2: "(1::nat) < alength demo_steps" by (simp add: demo_lengths)
  have l: "alength (aget demo_steps (Suc 0)) = 2" by (rule demo_lengths)
  have p: "js_plus1 (Num 1) = Num 2" by (simp add: dbl_round_exact)
  note t1 = retreat_position[of 2 "Num 0" demo_steps initialFormData 1]
  note t2 = retreat_position[of 2 "Num 1" demo_steps initialFormData 1]
  from t1 h1 have a: "multiStepFormReducer
        \<lparr>activeStepIndex = Num 2, activeSubStepIndex = Num 0, steps = demo_steps, formData = initialFormData\<rparr>
        PREV
      = Inr \<lparr>activeStepIndex = Num 1, activeSubStepIndex = Num 0, steps = demo_steps, formData = initialFormData\<rparr>"
    by simp
  from t2 h2 have b: "reduce_all
        \<lparr>activeStepIndex = Num 1, activeSubStepIndex = Num 1, steps = demo_steps, formData = initialFormData\<rparr>
        [NEXT, PREV]
      = Inr \<lparr>activeStepIndex = Num 1, activeSubStepIndex = Num 0, steps = demo_steps, formData = initialFormData\<rparr>"
    by (simp add: l p del: reduce_all.simps js_plus1.simps)
  from h1 h2 a b show ?thesis by (simp del: reduce_all.simps)
qed

section \<open>Navigation to a given step\<close>

text \<open>
  C3 says that \<^verbatim>\<open>goTo(k)\<close> yields the position \<open>(k, 0)\<close>. The code, from every state and
  for every integer \<open>k\<close>: on the declared action \<^verbatim>\<open>{type: 'GOTO', payload: {index: k}}\<close>
  the reducer reads \<^verbatim>\<open>action.index\<close>, which that object does not have, and returns the
  position \<open>(undefined, 0)\<close>; the callback \<^verbatim>\<open>goTo(k)\<close> dispatches the bare string and
  throws. Only on an object with a top-level \<^verbatim>\<open>index\<close>, which neither the declared type
  nor any caller builds, does the \<^verbatim>\<open>GOTO\<close> case give \<open>(k, 0)\<close>.
\<close>

theorem goto_drops_index:
  "multiStepFormReducer
     \<lparr>activeStepIndex = i, activeSubStepIndex = j, steps = stp, formData = fd\<rparr> (GOTO k)
   = Inr \<lparr>activeStepIndex = Undefined, activeSubStepIndex = Num 0, steps = stp, formData = fd\<rparr>
   \<and> goTo_cb k \<lparr>activeStepIndex = i, activeSubStepIndex = j, steps = stp, formData = fd\<rparr>
   = Inl (Error ''Invalid action type: undefined'')
   \<and> multiStepFormReducer
     \<lparr>activeStepIndex = i, activeSubStepIndex = j, steps = stp, formData = fd\<rparr>
     (Obj (Some ''GOTO'') (Num k) None None)
   = Inr \<lparr>activeStepIndex = Num k, activeSubStepIndex = Num 0, steps = stp, formData = fd\<rparr>"
  by (simp add: multiStepFormReducer_def GOTO_def goTo_cb_def dispatch_def)

section \<open>The callbacks against the tagged actions\<close>

text \<open>
  Every callback of the hook hands the reducer a bare string. A string has no \<^verbatim>\<open>type\<close>
  property, so the \<^verbatim>\<open>switch\<close> falls to its \<^verbatim>\<open>default\<close> and the reducer throws, from
  every state. On an action of the declared type the reducer never throws that error.
\<close>

lemma callbacks_throw:
  "next_cb state = Inl (Error ''Invalid action type: undefined'')
   \<and> back_cb state = Inl (Error ''Invalid action type: undefined'')
   \<and> goTo_cb index state = Inl (Error ''Invalid action type: undefined'')
   \<and> updateFormData_cb flds state = Inl (Error ''Invalid action type: undefined'')"
  by (simp add: next_cb_def back_cb_def goTo_cb_def updateFormData_cb_def dispatch_def
      multiStepFormReducer_def)

lemma declared_actions_are_known:
  "multiStepFormReducer state NEXT \<noteq> Inl (Error m)
   \<and> multiStepFormReducer state PREV \<noteq> Inl (Error m)
   \<and> multiStepFormReducer state (GOTO k) \<noteq> Inl (Error m)
   \<and> multiStepFormReducer state (UPDATE_FORM_DATA p) \<noteq> Inl (Error m)"
  by (simp add: multiStepFormReducer_def NEXT_def PREV_def GOTO_def UPDATE_FORM_DATA_def Let_def
      split: option.splits)

text \<open>
  C4 says that each callback produces the state the reducer produces on the tagged action
  of its kind. The code evaluated on \<open>[[A], [B1, B2], [C]]\<close> with empty form data: at
  \<open>(0, 0)\<close> \<^verbatim>\<open>next()\<close> throws where \<^verbatim>\<open>NEXT\<close> gives \<open>(1, 0)\<close>; at \<open>(1, 0)\<close> \<^verbatim>\<open>back()\<close>
  throws where \<^verbatim>\<open>PREV\<close> gives \<open>(0, 0)\<close>; at \<open>(0, 0)\<close> \<^verbatim>\<open>goTo(2)\<close> throws where the
  reducer returns a state, \<open>(undefined, 0)\<close> on the declared \<^verbatim>\<open>GOTO\<close> action and
  \<open>(2, 0)\<close> on the action with a top-level index; \<^verbatim>\<open>updateFormData({firstName: "x"})\<close>
  throws where the reducer returns a state, the unchanged one on the declared
  \<^verbatim>\<open>UPDATE_FORM_DATA\<close> action and the one with \<^verbatim>\<open>firstName\<close> set on the action with
  top-level fields.
\<close>

theorem callbacks_differ_from_tagged_actions:
  "next_cb \<lparr>activeStepIndex = Num 0, activeSubStepIndex = Num 0, steps = demo_steps, formData = initialFormData\<rparr>
     = Inl (Error ''Invalid action type: undefined'')
   \<and> multiStepFormReducer
       \<lparr>activeStepIndex = Num 0, activeSubStepIndex = Num 0, steps = demo_steps, formData = initialFormData\<rparr> NEXT
     = Inr \<lparr>activeStepIndex = Num 1, activeSubStepIndex = Num 0, steps = demo_steps, formData = initialFormData\<rparr>
   \<and> back_cb \<lparr>activeStepIndex = Num 1, activeSubStepIndex = Num 0, steps = demo_steps, formData = initialFormData\<rparr>
     = Inl (Error ''Invalid action type: undefined'')
   \<and> multiStepFormReducer
       \<lparr>activeStepIndex = Num 1, activeSubStepIndex = Num 0, steps = demo_steps, formData = initialFormData\<rparr> PREV
     = Inr \<lparr>activeStepIndex = Num 0, activeSubStepIndex = Num 0, steps = demo_steps, formData = initialFormData\<rparr>
   \<and> goTo_cb 2 \<lparr>activeStepIndex = Num 0, activeSubStepIndex = Num 0, steps = demo_steps, formData = initialFormData\<rparr>
     = Inl (Error ''Invalid action type: undefined'')
   \<and> multiStepFormReducer
       \<lparr>activeStepIndex = Num 0, activeSubStepIndex = Num 0, steps = demo_steps, formData = initialFormData\<rparr>
       (GOTO 2)
     = Inr \<lparr>activeStepIndex = Undefined, activeSubStepIndex = Num 0, steps = demo_steps, formData = initialFormData\<rparr>
   \<and> multiStepFormReducer
       \<lparr>activeStepIndex = Num 0, activeSubStepIndex = Num 0, steps = demo_steps, formData = initialFormData\<rparr>
       (Obj (Some ''GOTO'') (Num 2) None None)
     = Inr \<lparr>activeStepIndex = Num 2, activeSubStepIndex = Num 0, steps = demo_steps, formData = initialFormData\<rparr>
   \<and> updateFormData_cb [FirstName \<mapsto> ''x'']
       \<lparr>activeStepIndex = Num 0, activeSubStepIndex = Num 0, steps = demo_steps, formData = initialFormData\<rparr>
     = Inl (Error ''Invalid action type: undefined'')
   \<and> multiStepFormReducer
       \<lparr>activeStepIndex = Num 0, activeSubStepIndex = Num 0, steps = demo_steps, formData = initialFormData\<rparr>
       (UPDATE_FORM_DATA [FirstName \<mapsto> ''x''])
     = Inr \<lparr>activeStepIndex = Num 0, activeSubStepIndex = Num 0, steps = demo_steps, formData = initialFormData\<rparr>
   \<and> multiStepFormReducer
       \<lparr>activeStepIndex = Num 0, activeSubStepIndex = Num 0, steps = demo_steps, formData = initialFormData\<rparr>
       (Obj (Some ''UPDATE_FORM_DATA'') Undefined (Some [FirstName \<mapsto> ''x'']) None)
     = Inr \<lparr>activeStepIndex = Num 0, activeSubStepIndex = Num 0, steps = demo_steps,
             formData = (\<lambda>k. if k = FirstName then ''x'' else '''')\<rparr>"
proof -
  have n: "multiStepFormReducer
       \<lparr>activeStepIndex = Num 0, activeSubStepIndex = Num 0, steps = demo_steps, formData = initialFormData\<rparr> NEXT
     = Inr \<lparr>activeStepIndex = Num 1, activeSubStepIndex = Num 0, steps = demo_steps, formData = initialFormData\<rparr>"
    using next_cross[of 0 demo_steps "Num 0" initialFormData] by (simp add: demo_lengths)
  have p: "multiStepFormReducer
       \<lparr>activeStepIndex = Num 1, activeSubStepIndex = Num 0, steps = demo_steps, formData = initialFormData\<rparr> PREV
     = Inr \<lparr>activeStepIndex = Num 0, activeSubStepIndex = Num 0, steps = demo_steps, formData = initialFormData\<rparr>"
    by (simp add: prev_any dbl_round_exact)
  show ?thesis
    unfolding n p
    by (simp add: next_cb_def back_cb_def goTo_cb_def updateFormData_cb_def dispatch_def
        multiStepFormReducer_def GOTO_def UPDATE_FORM_DATA_def
        Types_next_def Types_prev_def Types_goto_def Types_updateFormData_def
        spread_def initialFormData_def fun_eq_iff)
qed

section \<open>Updating the form data\<close>

text \<open>
  C5 says that an update sets the fields of the partial mapping, so that updating
  \<^verbatim>\<open>firstName\<close> to \<^verbatim>\<open>"x"\<close> and then \<^verbatim>\<open>city\<close> to \<^verbatim>\<open>"y"\<close> leaves both set. The code, from
  every state: on the declared action \<^verbatim>\<open>{type: 'UPDATE_FORM_DATA', payload: {fields}}\<close>
  the reducer reads \<^verbatim>\<open>action.fields\<close>, which that object does not have, and returns the
  state with its form data unchanged, so after the two updates from the initial form data
  \<^verbatim>\<open>firstName\<close> and \<^verbatim>\<open>city\<close> are still empty; the callback \<^verbatim>\<open>updateFormData(p)\<close>
  dispatches the bare string and throws. Only on an object with top-level \<^verbatim>\<open>fields\<close>,
  which neither the declared type nor any caller builds, does the case merge them.
\<close>

theorem update_drops_fields:
  "multiStepFormReducer
     \<lparr>activeStepIndex = i, activeSubStepIndex = j, steps = stp, formData = fd\<rparr> (UPDATE_FORM_DATA p)
   = Inr \<lparr>activeStepIndex = i, activeSubStepIndex = j, steps = stp, formData = fd\<rparr>
   \<and> reduce_all
     \<lparr>activeStepIndex = i, activeSubStepIndex = j, steps = stp, formData = initialFormData\<rparr>
     [UPDATE_FORM_DATA [FirstName \<mapsto> ''x''], UPDATE_FORM_DATA [City \<mapsto> ''y'']]
   = Inr \<lparr>activeStepIndex = i, activeSubStepIndex = j, steps = stp, formData = initialFormData\<rparr>
   \<and> initialFormData FirstName \<noteq> ''x'' \<and> initialFormData City \<noteq> ''y''
   \<and> updateFormData_cb p \<lparr>activeStepIndex = i, activeSubStepIndex = j, steps = stp, formData = fd\<rparr>
   = Inl (Error ''Invalid action type: undefined'')
   \<and> multiStepFormReducer
     \<lparr>activeStepIndex = i, activeSubStepIndex = j, steps = stp, formData = fd\<rparr>
     (Obj (Some ''UPDATE_FORM_DATA'') Undefined (Some p) None)
   = Inr \<lparr>activeStepIndex = i, activeSubStepIndex = j, steps = stp, formData = spread fd (Some p)\<rparr>"
  by (simp add: multiStepFormReducer_def UPDATE_FORM_DATA_def updateFormData_cb_def dispatch_def
      spread_def initialFormData_def)

section \<open>Unknown actions\<close>

text \<open>
  C6. From every state, an action whose \<^verbatim>\<open>type\<close> is none of \<^verbatim>\<open>NEXT\<close>, \<^verbatim>\<open>PREV\<close>,
  \<^verbatim>\<open>GOTO\<close>, \<^verbatim>\<open>UPDATE_FORM_DATA\<close> (another string, or no \<^verbatim>\<open>type\<close> at all) makes the
  reducer throw \<^verbatim>\<open>Error("Invalid action type: ...")\<close> with the type it found: no state is
  returned and the action is not ignored.
\<close>

theorem unknown_action_throws:
  assumes "action_type a \<notin> {Some ''NEXT'', Some ''PREV'', Some ''GOTO'', Some ''UPDATE_FORM_DATA''}"
  shows "multiStepFormReducer state a
         = Inl (Error (''Invalid action type: '' @ show_type (action_type a)))"
  using assms by (simp add: multiStepFormReducer_def)

text \<open>
C6 at the action \<^verbatim>\<open>{type: "RESET"}\<close>.
\<close>

theorem unknown_action_throws_witness:
  "action_type (Obj (Some ''RESET'') Undefined None None)
     \<notin> {Some ''NEXT'', Some ''PREV'', Some ''GOTO'', Some ''UPDATE_FORM_DATA''}
   \<and> multiStepFormReducer
        \<lparr>activeStepIndex = Num 0, activeSubStepIndex = Num 0, steps = demo_steps, formData = initialFormData\<rparr>
        (Obj (Some ''RESET'') Undefined None None)
      = Inl (Error ''Invalid action type: RESET'')"
proof -
  have h: "action_type (Obj (Some ''RESET'') Undefined None None)
     \<notin> {Some ''NEXT'', Some ''PREV'', Some ''GOTO'', Some ''UPDATE_FORM_DATA''}" by simp
  from unknown_action_throws[OF h] h show ?thesis by simp
qed

section \<open>Leaving the step list\<close>

text \<open>
  C7, as stated, at two concrete inputs. On \<open>[[A], [B1, B2]]\<close> the position \<open>(1, 0)\<close> is
  at the last step; \<^verbatim>\<open>NEXT\<close> there gives \<open>(1, 1)\<close>, not a position with step index
  \<open>steps.length = 2\<close>. And the \<^verbatim>\<open>GOTO\<close> action with the index 7, invalid for three
  steps, gives the step index \<^verbatim>\<open>undefined\<close>, not 7.
\<close>

theorem out_of_range_counterexample:
  "Num 1 = Num (int (alength short_steps) - 1)
   \<and> multiStepFormReducer
       \<lparr>activeStepIndex = Num 1, activeSubStepIndex = Num 0, steps = short_steps, formData = initialFormData\<rparr>
       NEXT
     = Inr \<lparr>activeStepIndex = Num 1, activeSubStepIndex = Num 1, steps = short_steps, formData = initialFormData\<rparr>
   \<and> multiStepFormReducer
       \<lparr>activeStepIndex = Num 1, activeSubStepIndex = Num 0, steps = short_steps, formData = initialFormData\<rparr>
       NEXT
     \<noteq> Inr \<lparr>activeStepIndex = Num (int (alength short_steps)), activeSubStepIndex = Num 0,
             steps = short_steps, formData = initialFormData\<rparr>
   \<and> multiStepFormReducer
       \<lparr>activeStepIndex = Num 0, activeSubStepIndex = Num 0, steps = demo_steps, formData = initialFormData\<rparr>
       (GOTO 7)
     = Inr \<lparr>activeStepIndex = Undefined, activeSubStepIndex = Num 0, steps = demo_steps, formData = initialFormData\<rparr>
   \<and> multiStepFormReducer
       \<lparr>activeStepIndex = Num 0, activeSubStepIndex = Num 0, steps = demo_steps, formData = initialFormData\<rparr>
       (GOTO 7)
     \<noteq> Inr \<lparr>activeStepIndex = Num 7, activeSubStepIndex = Num 0, steps = demo_steps, formData = initialFormData\<rparr>"
proof -
  have n: "multiStepFormReducer
       \<lparr>activeStepIndex = Num 1, activeSubStepIndex = Num 0, steps = short_steps, formData = initialFormData\<rparr>
       NEXT
     = Inr \<lparr>activeStepIndex = Num 1, activeSubStepIndex = Num 1, steps = short_steps, formData = initialFormData\<rparr>"
    using next_within[of 1 short_steps 0 initialFormData] by (simp add: short_lengths)
  show ?thesis
    unfolding n by (simp add: short_lengths multiStepFormReducer_def GOTO_def)
qed

text \<open>
  C7, amended. \<^verbatim>\<open>NEXT\<close> at the last step of a non-empty step list and \<^verbatim>\<open>PREV\<close> at step
  0 do not throw. \<^verbatim>\<open>NEXT\<close> gives the position \<open>(steps.length, 0)\<close> when the last step
  has at most one sub-step or the sub-step index is at its last sub-step, and otherwise
  only moves to the next sub-step. \<^verbatim>\<open>PREV\<close> at step 0 gives \<open>(-1, 0)\<close>.
\<close>

theorem out_of_range_navigation:
  "(alength stp \<noteq> 0 \<longrightarrow>
      multiStepFormReducer
        \<lparr>activeStepIndex = Num (int (alength stp) - 1), activeSubStepIndex = j, steps = stp, formData = fd\<rparr>
        NEXT
      = (if alength (aget stp (alength stp - 1)) \<le> 1
            \<or> js_plus1 j = Num (int (alength (aget stp (alength stp - 1))))
         then Inr \<lparr>activeStepIndex = Num (int (alength stp)), activeSubStepIndex = Num 0,
                    steps = stp, formData = fd\<rparr>
         else Inr \<lparr>activeStepIndex = Num (int (alength stp) - 1), activeSubStepIndex = js_plus1 j,
                    steps = stp, formData = fd\<rparr>))
   \<and> multiStepFormReducer
        \<lparr>activeStepIndex = Num 0, activeSubStepIndex = j, steps = stp, formData = fd\<rparr> PREV
      = Inr \<lparr>activeStepIndex = Num (- 1), activeSubStepIndex = Num 0, steps = stp, formData = fd\<rparr>"
proof (intro conjI impI)
  assume ne: "alength stp \<noteq> 0"
  then have e: "int (alength stp - Suc 0) = int (alength stp) - 1"
    by (simp add: of_nat_diff)
  from ne have "alength stp - 1 < alength stp"
    by simp
  from next_at_step[OF this, of j fd] show "multiStepFormReducer
        \<lparr>activeStepIndex = Num (int (alength stp) - 1), activeSubStepIndex = j, steps = stp, formData = fd\<rparr>
        NEXT
      = (if alength (aget stp (alength stp - 1)) \<le> 1
            \<or> js_plus1 j = Num (int (alength (aget stp (alength stp - 1))))
         then Inr \<lparr>activeStepIndex = Num (int (alength stp)), activeSubStepIndex = Num 0,
                    steps = stp, formData = fd\<rparr>
         else Inr \<lparr>activeStepIndex = Num (int (alength stp) - 1), activeSubStepIndex = js_plus1 j,
                    steps = stp, formData = fd\<rparr>)"
    by (simp add: e del: js_plus1.simps)
next
  show "multiStepFormReducer
        \<lparr>activeStepIndex = Num 0, activeSubStepIndex = j, steps = stp, formData = fd\<rparr> PREV
      = Inr \<lparr>activeStepIndex = Num (- 1), activeSubStepIndex = Num 0, steps = stp, formData = fd\<rparr>"
    by (simp add: prev_any dbl_round_exact)
qed

text \<open>
  C7, amended, on the scenario: \<^verbatim>\<open>NEXT\<close> at \<open>(2, 0)\<close>, the single sub-step of the last
  step, gives \<open>(3, 0)\<close>; \<^verbatim>\<open>PREV\<close> at \<open>(0, 0)\<close> gives \<open>(-1, 0)\<close>.
\<close>

theorem out_of_range_navigation_witness:
  "alength demo_steps \<noteq> 0
   \<and> multiStepFormReducer
        \<lparr>activeStepIndex = Num 2, activeSubStepIndex = Num 0, steps = demo_steps, formData = initialFormData\<rparr>
        NEXT
      = Inr \<lparr>activeStepIndex = Num 3, activeSubStepIndex = Num 0, steps = demo_steps, formData = initialFormData\<rparr>
   \<and> multiStepFormReducer
        \<lparr>activeStepIndex = Num 0, activeSubStepIndex = Num 0, steps = demo_steps, formData = initialFormData\<rparr>
        PREV
      = Inr \<lparr>activeStepIndex = Num (- 1), activeSubStepIndex = Num 0, steps = demo_steps, formData = initialFormData\<rparr>"
proof -
  have h: "alength demo_steps \<noteq> 0" by (simp add: demo_lengths)
  from out_of_range_navigation[of demo_steps "Num 0" initialFormData] h
  show ?thesis by (simp add: demo_lengths del: js_plus1.simps)
qed

section \<open>The read of the step list\<close>

text \<open>
  C8. The \<^verbatim>\<open>NEXT\<close> transition returns a state exactly when the step index is a position
  of the step list, \<open>0 \<le> stepIndex < steps.length\<close>. From a state whose step index is
  outside the list, \<^verbatim>\<open>NEXT\<close> throws the \<^verbatim>\<open>TypeError\<close> of the read
  \<^verbatim>\<open>steps[activeStepIndex].length\<close>, while \<^verbatim>\<open>PREV\<close> and every action of type \<^verbatim>\<open>GOTO\<close>
  (whatever else it carries) return a state from there as from everywhere else: they do
  not read the step list.
\<close>

theorem next_needs_step_in_range:
  "((\<exists>state'. multiStepFormReducer
        \<lparr>activeStepIndex = Num n, activeSubStepIndex = j, steps = stp, formData = fd\<rparr> NEXT
      = Inr state') \<longleftrightarrow> (0 \<le> n \<and> n < int (alength stp)))
   \<and> (n < 0 \<or> int (alength stp) \<le> n \<longrightarrow>
        multiStepFormReducer
          \<lparr>activeStepIndex = Num n, activeSubStepIndex = j, steps = stp, formData = fd\<rparr> NEXT
        = Inl TypeError
      \<and> multiStepFormReducer
          \<lparr>activeStepIndex = Num n, activeSubStepIndex = j, steps = stp, formData = fd\<rparr> PREV
        = Inr \<lparr>activeStepIndex = js_minus1 (Num n), activeSubStepIndex = Num 0, steps = stp, formData = fd\<rparr>
      \<and> multiStepFormReducer
          \<lparr>activeStepIndex = Num n, activeSubStepIndex = j, steps = stp, formData = fd\<rparr>
          (Obj (Some ''GOTO'') ix flds pl)
        = Inr \<lparr>activeStepIndex = ix, activeSubStepIndex = Num 0, steps = stp, formData = fd\<rparr>)"
  by (auto simp add: multiStepFormReducer_def NEXT_def PREV_def Let_def
      simp del: js_plus1.simps js_minus1.simps)

text \<open>
  C8 on the scenario: \<^verbatim>\<open>NEXT\<close> at the last position \<open>(2, 0)\<close> gives \<open>(3, 0)\<close>, outside the
  three steps; from there \<^verbatim>\<open>NEXT\<close> throws, \<^verbatim>\<open>PREV\<close> gives \<open>(2, 0)\<close>, and \<^verbatim>\<open>GOTO\<close>
  returns a state, on the declared action and on the one with a top-level index.
\<close>

theorem next_needs_step_in_range_witness:
  "((3::int) < 0 \<or> int (alength demo_steps) \<le> 3)
   \<and> reduce_all
        \<lparr>activeStepIndex = Num 2, activeSubStepIndex = Num 0, steps = demo_steps, formData = initialFormData\<rparr>
        [NEXT]
      = Inr \<lparr>activeStepIndex = Num 3, activeSubStepIndex = Num 0, steps = demo_steps, formData = initialFormData\<rparr>
   \<and> multiStepFormReducer
        \<lparr>activeStepIndex = Num 3, activeSubStepIndex = Num 0, steps = demo_steps, formData = initialFormData\<rparr>
        NEXT
      = Inl TypeError
   \<and> multiStepFormReducer
        \<lparr>activeStepIndex = Num 3, activeSubStepIndex = Num 0, steps = demo_steps, formData = initialFormData\<rparr>
        PREV
      = Inr \<lparr>activeStepIndex = Num 2, activeSubStepIndex = Num 0, steps = demo_steps, formData = initialFormData\<rparr>
   \<and> multiStepFormReducer
        \<lparr>activeStepIndex = Num 3, activeSubStepIndex = Num 0, steps = demo_steps, formData = initialFormData\<rparr>
        (GOTO 1)
      = Inr \<lparr>activeStepIndex = Undefined, activeSubStepIndex = Num 0, steps = demo_steps, formData = initialFormData\<rparr>
   \<and> multiStepFormReducer
        \<lparr>activeStepIndex = Num 3, activeSubStepIndex = Num 0, steps = demo_steps, formData = initialFormData\<rparr>
        (Obj (Some ''GOTO'') (Num 1) None None)
      = Inr \<lparr>activeStepIndex = Num 1, activeSubStepIndex = Num 0, steps = demo_steps, formData = initialFormData\<rparr>"
proof -
  have h: "(3::int) < 0 \<or> int (alength demo_steps) \<le> 3" by (simp add: demo_lengths)
  have r: "reduce_all
        \<lparr>activeStepIndex = Num 2, activeSubStepIndex = Num 0, steps = demo_steps, formData = initialFormData\<rparr>
        [NEXT]
      = Inr \<lparr>activeStepIndex = Num 3, activeSubStepIndex = Num 0, steps = demo_steps, formData = initialFormData\<rparr>"
    using next_cross[of 2 demo_steps "Num 0" initialFormData] by (simp add: demo_lengths)
  have m: "js_minus1 (Num 3) = Num 2" by (simp add: dbl_round_exact)
  note t1 = next_needs_step_in_range[of 3 "Num 0" demo_steps initialFormData Undefined None
              "Some (IndexPayload 1)"]
  note t2 = next_needs_step_in_range[of 3 "Num 0" demo_steps initialFormData "Num 1" None None]
  from t1 h have a: "multiStepFormReducer
        \<lparr>activeStepIndex = Num 3, activeSubStepIndex = Num 0, steps = demo_steps, formData = initialFormData\<rparr>
        NEXT
      = Inl TypeError"
    and b: "multiStepFormReducer
        \<lparr>activeStepIndex = Num 3, activeSubStepIndex = Num 0, steps = demo_steps, formData = initialFormData\<rparr>
        PREV
      = Inr \<lparr>activeStepIndex = js_minus1 (Num 3), activeSubStepIndex = Num 0, steps = demo_steps, formData = initialFormData\<rparr>"
    and c: "multiStepFormReducer
        \<lparr>activeStepIndex = Num 3, activeSubStepIndex = Num 0, steps = demo_steps, formData = initialFormData\<rparr>
        (GOTO 1)
      = Inr \<lparr>activeStepIndex = Undefined, activeSubStepIndex = Num 0, steps = demo_steps, formData = initialFormData\<rparr>"
    unfolding GOTO_def by blast+
  from t2 h have d: "multiStepFormReducer
        \<lparr>activeStepIndex = Num 3, activeSubStepIndex = Num 0, steps = demo_steps, formData = initialFormData\<rparr>
        (Obj (Some ''GOTO'') (Num 1) None None)
      = Inr \<lparr>activeStepIndex = Num 1, activeSubStepIndex = Num 0, steps = demo_steps, formData = initialFormData\<rparr>"
    by blast
  from h r a b c d m show ?thesis
    by (simp del: reduce_all.simps js_minus1.simps)
qed

section \<open>The derived flags\<close>

text \<open>
  Had the three identifiers been bound to the step index \<open>n\<close>, the sub-step index and
  the form data, a returned object would carry \<^verbatim>\<open>isFirstStep\<close> true exactly when
  \<open>n = 0\<close> and \<^verbatim>\<open>isLastStep\<close> true exactly when \<open>n = steps.length - 1\<close>.
\<close>

lemma flags_when_bound:
  assumes "return_object
             (module_scope(''activeStepIndex'' \<mapsto> VNum (Num n),
                           ''activeSubStepIndex'' \<mapsto> VNum j,
                           ''formData'' \<mapsto> VForm fd)) stp = Inr r"
  shows "out_isFirstStep r = (n = 0) \<and> out_isLastStep r = (n = int (alength stp) - 1)"
  using assms by (auto simp add: return_object_def resolve_def split: option.splits)

text \<open>
  C9 says that \<^verbatim>\<open>isFirstStep\<close> and \<^verbatim>\<open>isLastStep\<close> are derived from the step index of
  the state. The code, for every state and every step list: the hook evaluates the
  identifier \<^verbatim>\<open>activeStepIndex\<close>, which nothing declares, as the first property of the
  object it returns and throws a \<^verbatim>\<open>ReferenceError\<close>; no flag is computed.
\<close>

theorem hook_throws_reference_error:
  "useMultiStepForm state initialSteps = Inl (ReferenceError ''activeStepIndex'')"
  by (simp add: useMultiStepForm_def return_object_def resolve_def module_scope_def)

section \<open>Reading the context outside a provider\<close>

text \<open>
  C10. With no provider above the caller, \<^verbatim>\<open>useMultiStepFormContext\<close> throws the error
  \<^verbatim>\<open>useMultiStepFormContext must be used within a MultiStepFormProvider\<close> at the call;
  it returns neither \<^verbatim>\<open>null\<close> nor a default value.
\<close>

theorem context_outside_provider:
  "useMultiStepFormContext None
   = Inl (Error ''useMultiStepFormContext must be used within a MultiStepFormProvider'')"
  by (simp add: useMultiStepFormContext_def useContext_def)

end
